theory Spec2Isabelle
  imports Main "HOL-Library.Sublist"
begin

section \<open>JavaScript strings\<close>

text \<open>
  A JavaScript string is modelled as a \<open>string\<close> (a list of characters). The three
  string methods used by \<open>isPublicRoute\<close> are \<open>includes\<close>, \<open>replace\<close> with a string
  pattern (which replaces the first occurrence only) and \<open>startsWith\<close>.
\<close>

definition str_includes :: "string \<Rightarrow> char \<Rightarrow> bool" where
  "str_includes s c = (c \<in> set s)"

fun replace_first :: "string \<Rightarrow> string \<Rightarrow> string \<Rightarrow> string" where
  "replace_first pat rep [] = (if pat = [] then rep else [])"
| "replace_first pat rep (c # cs) =
     (if prefix pat (c # cs) then rep @ drop (length pat) (c # cs)
      else c # replace_first pat rep cs)"

definition startsWith :: "string \<Rightarrow> string \<Rightarrow> bool" where
  "startsWith s p = prefix p s"

section \<open>The route classifier (auth.middleware.js)\<close>

definition PUBLIC_ROUTES :: "string list" where
  "PUBLIC_ROUTES =
     [''/api/auth/login'',
      ''/api/auth/register'',
      ''/api/auth/forgot-password'',
      ''/api/auth/reset-password'',
      ''/health'',
      ''/api'']"

text \<open>The callback handed to \<open>PUBLIC_ROUTES.some\<close>.\<close>

definition route_matches :: "string \<Rightarrow> string \<Rightarrow> bool" where
  "route_matches path route =
     (if str_includes route (CHR ''*'')
      then (let baseRoute = replace_first ''/*'' '''' route in startsWith path baseRoute)
      else path = route \<or> startsWith path route)"

definition isPublicRouteIn :: "string list \<Rightarrow> string \<Rightarrow> bool" where
  "isPublicRouteIn routes path = list_ex (route_matches path) routes"

definition isPublicRoute :: "string \<Rightarrow> bool" where
  "isPublicRoute path = isPublicRouteIn PUBLIC_ROUTES path"

subsection \<open>The classifier as the specification words it\<close>

text \<open>
  The specification describes a public route set whose entries are either an exact path
  or a prefix marked by a trailing wildcard. A wildcard entry matches by string-prefix
  comparison on its base; an exact entry matches by equality or by prefix comparison
  against the whole entry.
\<close>

datatype pattern = Exact string | Wildcard string

definition pattern_of :: "string \<Rightarrow> pattern" where
  "pattern_of route =
     (if suffix ''/*'' route then Wildcard (take (length route - 2) route) else Exact route)"

fun spec_matches :: "pattern \<Rightarrow> string \<Rightarrow> bool" where
  "spec_matches (Wildcard base) p = prefix base p"
| "spec_matches (Exact e) p = (p = e \<or> prefix e p)"

definition spec_isPublic :: "string list \<Rightarrow> string \<Rightarrow> bool" where
  "spec_isPublic routes p = list_ex (\<lambda>r. spec_matches (pattern_of r) p) routes"

text \<open>
  An entry is well formed when its only star, if any, is the one of a trailing \<open>/*\<close>.
\<close>

definition well_formed :: "string \<Rightarrow> bool" where
  "well_formed route =
     (CHR ''*'' \<notin> set (if suffix ''/*'' route then take (length route - 2) route else route))"

section \<open>JavaScript values and errors\<close>

text \<open>
  The values that flow through the middleware: header values, the decoded token payload
  (the result of parsing JSON) and response bodies. An object is an association list
  holding each key once. Numbers are represented by integers; the program only ever
  tests a number for being zero (truthiness).
\<close>

datatype jsval =
    Undefined
  | Null
  | Bool bool
  | Num int
  | Str string
  | Arr "jsval list"
  | Obj "(string \<times> jsval) list"

text \<open>A thrown error: its \<open>name\<close>, its \<open>message\<close> and its optional \<open>status\<close>.\<close>

record js_error =
  ename :: string
  emessage :: string
  estatus :: "nat option"

definition TypeError :: "string \<Rightarrow> js_error" where
  "TypeError msg = \<lparr>ename = ''TypeError'', emessage = msg, estatus = None\<rparr>"

definition ReferenceError :: "string \<Rightarrow> js_error" where
  "ReferenceError msg = \<lparr>ename = ''ReferenceError'', emessage = msg, estatus = None\<rparr>"

fun truthy :: "jsval \<Rightarrow> bool" where
  "truthy Undefined = False"
| "truthy Null = False"
| "truthy (Bool b) = b"
| "truthy (Num n) = (n \<noteq> 0)"
| "truthy (Str s) = (s \<noteq> [])"
| "truthy (Arr xs) = True"
| "truthy (Obj kvs) = True"

text \<open>\<open>a || b\<close>\<close>

definition js_or :: "jsval \<Rightarrow> jsval \<Rightarrow> jsval" where
  "js_or a b = (if truthy a then a else b)"

fun nullish :: "jsval \<Rightarrow> bool" where
  "nullish Undefined = True"
| "nullish Null = True"
| "nullish v = False"

text \<open>
  Reading a property of a value that is neither \<open>undefined\<close> nor \<open>null\<close>. The program
  reads the names \<open>user\<close>, \<open>id\<close>, \<open>_id\<close>, \<open>email\<close> and \<open>userType\<close> only, none of which
  is inherited from a prototype, so a value without such an own property yields
  \<open>undefined\<close>.
\<close>

fun get_prop :: "jsval \<Rightarrow> string \<Rightarrow> jsval" where
  "get_prop (Obj kvs) k = (case map_of kvs k of Some v \<Rightarrow> v | None \<Rightarrow> Undefined)"
| "get_prop v k = Undefined"

text \<open>\<open>v.k\<close> throws a TypeError on \<open>undefined\<close> and \<open>null\<close>; \<open>v?.k\<close> yields \<open>undefined\<close> there.\<close>

definition js_member :: "jsval \<Rightarrow> string \<Rightarrow> js_error + jsval" where
  "js_member v k =
     (if nullish v
      then Inl (TypeError (''Cannot read properties of undefined (reading '' @ k @ '')''))
      else Inr (get_prop v k))"

definition opt_member :: "jsval \<Rightarrow> string \<Rightarrow> jsval" where
  "opt_member v k = (if nullish v then Undefined else get_prop v k)"

text \<open>
  \<open>s.split(sep)\<close> for a one-character separator: the pieces between the occurrences of
  the separator, empty pieces included; the result is never empty.
\<close>

fun split_on :: "char \<Rightarrow> string \<Rightarrow> string list" where
  "split_on sep [] = [[]]"
| "split_on sep (c # cs) =
     (if c = sep then [] # split_on sep cs
      else (case split_on sep cs of
              x # xs \<Rightarrow> (c # x) # xs
            | [] \<Rightarrow> [[c]]))"

text \<open>
  Interpolating a value into a template literal converts it to a string. For a value
  parsed from JSON the conversion throws a TypeError exactly when it meets an object
  with an own property \<open>toString\<close> (which shadows the inherited method and, coming
  from JSON, is not callable); an array converts its elements in turn.
\<close>

fun tpl_throws :: "jsval \<Rightarrow> bool" where
  "tpl_throws (Obj kvs) = (''toString'' \<in> set (map fst kvs))"
| "tpl_throws (Arr xs) = list_ex tpl_throws xs"
| "tpl_throws v = False"

section \<open>The authentication middleware (auth.middleware.js)\<close>

text \<open>
  The request as the middleware sees it. \<open>req_method\<close> is \<open>req.method\<close>; \<open>url\<close> is
  the request URL relative to the current mount point, \<open>originalUrl\<close> the URL as
  received; \<open>path\<close> is the part of \<open>url\<close> before the query string and the
  fragment. \<open>body\<close> is \<open>req.body\<close>.
\<close>

record request =
  req_method :: string
  originalUrl :: string
  url :: string
  headers :: "string \<rightharpoonup> jsval"
  body :: jsval

definition pathname :: "string \<Rightarrow> string" where
  "pathname u = takeWhile (\<lambda>c. c \<noteq> CHR ''?'' \<and> c \<noteq> CHR ''#'') u"

definition path :: "request \<Rightarrow> string" where
  "path req = pathname (url req)"

record response =
  status :: nat
  json :: jsval

text \<open>
  What the middleware reads from outside the request: the process environment, the
  library functions \<open>jwt.verify\<close> and \<open>JSON.stringify\<close> (each either throws or
  returns a value) and the clock behind \<open>new Date().toISOString()\<close>.
\<close>

record env =
  processEnv :: "string \<rightharpoonup> string"
  jwt_verify :: "string \<Rightarrow> string \<Rightarrow> js_error + jsval"
  JSON_stringify :: "jsval \<Rightarrow> js_error + jsval"
  now :: string

text \<open>The middleware either calls \<open>next()\<close> or ends the request with a response.\<close>

datatype mw_result = Next request | Done response

definition failure :: "nat \<Rightarrow> string \<Rightarrow> env \<Rightarrow> response" where
  "failure code msg e =
     \<lparr>status = code,
      json = Obj [(''success'', Bool False), (''message'', Str msg), (''timestamp'', Str (now e))]\<rparr>"

text \<open>Lines 82 to 89: the identity headers, the serialised copy, the log line, \<open>next()\<close>.\<close>

definition propagate :: "env \<Rightarrow> request \<Rightarrow> jsval \<Rightarrow> js_error + mw_result" where
  "propagate e req decoded =
     (case js_member decoded ''user'' of
        Inl err \<Rightarrow> Inl err
      | Inr user \<Rightarrow>
          (let h1 = (headers req)(''x-user-id'' \<mapsto> js_or (opt_member user ''id'') (opt_member user ''_id''));
               h2 = h1(''x-user-email'' \<mapsto> opt_member user ''email'');
               h3 = h2(''x-user-type'' \<mapsto> opt_member user ''userType'')
           in case JSON_stringify e user of
                Inl err \<Rightarrow> Inl err
              | Inr data \<Rightarrow>
                  (let h4 = h3(''x-user-data'' \<mapsto> data)
                   in if tpl_throws (opt_member user ''email'')
                      then Inl (TypeError ''Cannot convert object to primitive value'')
                      else Inr (Next (req\<lparr>headers := h4\<rparr>)))))"

text \<open>
  \<open>req.headers?.authorization\<close>: the value of the header, \<open>undefined\<close> when the request
  has none.
\<close>

definition authorization :: "request \<Rightarrow> jsval" where
  "authorization req = (case headers req ''authorization'' of Some v \<Rightarrow> v | None \<Rightarrow> Undefined)"

text \<open>The body of the \<open>try\<close> block: a result, or the error it throws.\<close>

definition auth_try :: "env \<Rightarrow> request \<Rightarrow> js_error + mw_result" where
  "auth_try e req =
     (let authHeader = authorization req
      in if \<not> truthy authHeader
         then Inr (Done (failure 401 ''Authentication required'' e))
         else (case authHeader of
                 Str s \<Rightarrow>
                   (let parts = split_on (CHR '' '') s
                    in if length parts \<noteq> 2 \<or> parts ! 0 \<noteq> ''Bearer''
                       then Inr (Done (failure 401 ''Invalid authorization header format'' e))
                       else (let token = parts ! 1
                             in case processEnv e ''JWT_SECRET'' of
                                  None \<Rightarrow> Inr (Done (failure 500 ''Server configuration error'' e))
                                | Some jwtSecret \<Rightarrow>
                                    if jwtSecret = []
                                    then Inr (Done (failure 500 ''Server configuration error'' e))
                                    else (case jwt_verify e token jwtSecret of
                                            Inl err \<Rightarrow> Inl err
                                          | Inr decoded \<Rightarrow> propagate e req decoded)))
               | _ \<Rightarrow> Inl (TypeError ''authHeader.split is not a function'')))"

text \<open>The \<open>catch\<close> block.\<close>

definition auth_catch :: "env \<Rightarrow> js_error \<Rightarrow> mw_result" where
  "auth_catch e err =
     (if ename err = ''TokenExpiredError''
      then Done (failure 401 ''Token has expired'' e)
      else Done (failure 401 ''Invalid or expired token'' e))"

definition gatewayAuthMiddleware :: "env \<Rightarrow> request \<Rightarrow> mw_result" where
  "gatewayAuthMiddleware e req =
     (if isPublicRoute (path req) then Next req
      else (case auth_try e req of
              Inr r \<Rightarrow> r
            | Inl err \<Rightarrow> auth_catch e err))"

section \<open>The gateway (index.js)\<close>

subsection \<open>Configuration and module scope\<close>

text \<open>\<open>process.env.NAME || default\<close>\<close>

definition env_or :: "env \<Rightarrow> string \<Rightarrow> string \<Rightarrow> string" where
  "env_or e name dflt =
     (case processEnv e name of
        Some v \<Rightarrow> (if v = [] then dflt else v)
      | None \<Rightarrow> dflt)"

definition AUTH_SERVICE_URL :: "env \<Rightarrow> string" where
  "AUTH_SERVICE_URL e = env_or e ''AUTH_SERVICE_URL'' ''http://localhost:3001''"

definition IAM_SERVICE_URL :: "env \<Rightarrow> string" where
  "IAM_SERVICE_URL e = env_or e ''IAM_SERVICE_URL'' ''http://localhost:3002''"

definition INVENTORY_SERVICE_URL :: "env \<Rightarrow> string" where
  "INVENTORY_SERVICE_URL e = env_or e ''INVENTORY_SERVICE_URL'' ''http://localhost:3003''"

text \<open>
  The service origins are the three constants that the module declares. Evaluating an
  identifier that no scope declares throws a ReferenceError.
\<close>

definition module_scope :: "env \<Rightarrow> string \<rightharpoonup> jsval" where
  "module_scope e =
     map_of [(''AUTH_SERVICE_URL'', Str (AUTH_SERVICE_URL e)),
             (''IAM_SERVICE_URL'', Str (IAM_SERVICE_URL e)),
             (''INVENTORY_SERVICE_URL'', Str (INVENTORY_SERVICE_URL e))]"

definition js_identifier :: "env \<Rightarrow> string \<Rightarrow> js_error + jsval" where
  "js_identifier e name =
     (case module_scope e name of
        Some v \<Rightarrow> Inr v
      | None \<Rightarrow> Inl (ReferenceError (name @ '' is not defined'')))"

subsection \<open>The response object\<close>

text \<open>
  The part of the response object that the guarded handlers read and write: whether the
  headers have been sent, and the responses written so far. \<open>res.status(n).json(b)\<close>
  writes a response and sends the headers.
\<close>

record res_state =
  headersSent :: bool
  sent :: "response list"

definition fresh_res :: res_state where
  "fresh_res = \<lparr>headersSent = False, sent = []\<rparr>"

definition res_json :: "nat \<Rightarrow> jsval \<Rightarrow> res_state \<Rightarrow> res_state" where
  "res_json code b res = res\<lparr>headersSent := True, sent := sent res @ [\<lparr>status = code, json = b\<rparr>]\<rparr>"

subsection \<open>Handlers\<close>


text \<open>The handler of \<open>GET /gateway/health\<close>: the object literal is evaluated, then sent.\<close>

definition healthHandler :: "env \<Rightarrow> js_error + response" where
  "healthHandler e =
     (case js_identifier e ''AUTH_SERVICE_URL'' of
        Inl err \<Rightarrow> Inl err
      | Inr auth \<Rightarrow>
     (case js_identifier e ''INVENTORY_SERVICE_URL'' of
        Inl err \<Rightarrow> Inl err
      | Inr order \<Rightarrow>
     (case js_identifier e ''KYC_SERVICE_URL'' of
        Inl err \<Rightarrow> Inl err
      | Inr kyc \<Rightarrow>
          Inr \<lparr>status = 200,
               json = Obj [(''status'', Str ''ok''),
                           (''service'', Str ''api-gateway''),
                           (''timestamp'', Str (now e)),
                           (''services'', Obj [(''auth'', auth), (''order'', order), (''kyc'', kyc)])]\<rparr>)))"

text \<open>
  The three proxies (auth, iam, inventory) are written out three times in the source
  and differ in the service origin, the mount path and the wording of the error only.
\<close>

datatype backend = Auth | IAM | Inventory

fun service_url :: "env \<Rightarrow> backend \<Rightarrow> string" where
  "service_url e Auth = AUTH_SERVICE_URL e"
| "service_url e IAM = IAM_SERVICE_URL e"
| "service_url e Inventory = INVENTORY_SERVICE_URL e"

fun mount_path :: "backend \<Rightarrow> string" where
  "mount_path Auth = ''/api/authz''"
| "mount_path IAM = ''/api/iam''"
| "mount_path Inventory = ''/api/inv''"


definition proxyReqPathResolver :: "backend \<Rightarrow> request \<Rightarrow> string" where
  "proxyReqPathResolver b req =
     (let originalPath = url req;
          newPath = mount_path b @ originalPath
      in newPath)"


text \<open>
  Where the proxy sends the request: to the service origin, at the path computed by the
  resolver, with the method of the request. The headers that the library sends (it
  rewrites some of them) are left out; the body that it sends is \<open>proxy_body\<close> below.
\<close>

record proxied =
  porigin :: string
  ppath :: string
  pmethod :: string

definition proxy :: "env \<Rightarrow> backend \<Rightarrow> request \<Rightarrow> proxied" where
  "proxy e b req =
     \<lparr>porigin = service_url e b,
      ppath = proxyReqPathResolver b req,
      pmethod = req_method req\<rparr>"

subsection \<open>Request bodies\<close>





definition apiDocumentation :: "env \<Rightarrow> response" where
  "apiDocumentation e =
     \<lparr>status = 200,
      json = Obj [(''success'', Bool True),
                  (''message'', Str ''ics API Gateway''),
                  (''version'', Str ''1.0.0''),
                  (''services'', Arr [Str ''auth-service'', Str ''kyc-service'', Str ''order-service'']),
                  (''endpoints'', Obj [(''authz'', Str ''/api/authz/*''),
                                       (''iam'', Str ''/api/iam/*''),
                                       (''inventory'', Str ''/api/inventory/*'')]),
                  (''documentation'', Str ''https://docs.ics.com''),
                  (''timestamp'', Str (now e))]\<rparr>"

definition notFound :: "env \<Rightarrow> request \<Rightarrow> response" where
  "notFound e req = failure 404 (''Route '' @ originalUrl req @ '' not found'') e"

definition globalErrorHandler :: "env \<Rightarrow> js_error \<Rightarrow> res_state \<Rightarrow> res_state" where
  "globalErrorHandler e err res =
     (if \<not> headersSent res
      then res_json (case estatus err of Some s \<Rightarrow> (if s = 0 then 500 else s) | None \<Rightarrow> 500)
             (Obj [(''status'', Str ''error''),
                   (''message'', Str (if emessage err = [] then ''Internal Server Error'' else emessage err)),
                   (''timestamp'', Str (now e))]) res
      else res)"

subsection \<open>Express routing\<close>

text \<open>
  How Express (version 4, default settings) matches a request against a registered
  path. Matching is case-insensitive on the path (the URL without its query string
  and fragment).
  \<^item> \<open>app.get(p, h)\<close> runs \<open>h\<close> for GET and HEAD requests whose path is \<open>p\<close>, with or
    without one trailing slash.
  \<^item> \<open>app.use(m, h)\<close> runs \<open>h\<close> when the path is \<open>m\<close> or continues \<open>m\<close> with a
    slash. The matched part (including the slash when the path ends there or another
    slash follows) is removed from \<open>req.url\<close>, and a leading slash is put back when
    the remainder lacks one.
\<close>

definition toLower :: "char \<Rightarrow> char" where
  "toLower c =
     (case map_of (zip ''ABCDEFGHIJKLMNOPQRSTUVWXYZ'' ''abcdefghijklmnopqrstuvwxyz'') c of
        Some d \<Rightarrow> d
      | None \<Rightarrow> c)"

definition get_match :: "string \<Rightarrow> request \<Rightarrow> bool" where
  "get_match pat req =
     ((req_method req = ''GET'' \<or> req_method req = ''HEAD'') \<and>
      (let p = map toLower (path req)
       in p = map toLower pat \<or> p = map toLower pat @ ''/''))"

fun matched_length :: "nat \<Rightarrow> string \<Rightarrow> nat option" where
  "matched_length n [] = Some n"
| "matched_length n [c] = (if c = CHR ''/'' then Some (n + 1) else None)"
| "matched_length n (c # d # ds) =
     (if c = CHR ''/'' then (if d = CHR ''/'' then Some (n + 1) else Some n) else None)"

definition use_match :: "string \<Rightarrow> request \<Rightarrow> request option" where
  "use_match mount req =
     (let p = path req; n = length mount
      in if map toLower (take n p) = map toLower mount
         then (case matched_length n (drop n p) of
                 None \<Rightarrow> None
               | Some k \<Rightarrow>
                   (let u = drop k (url req)
                    in Some (req\<lparr>url := (if prefix ''/'' u then u else CHR ''/'' # u)\<rparr>)))
         else None)"

subsection \<open>The route table\<close>

text \<open>
  The routes in the order of their registration, for a request that the preceding
  library middleware (CORS, body parsers, helmet, compression, rate limiter, request
  timeout) has passed on. The gateway hands the request to a proxy, or answers itself.
  An error thrown by a handler goes to the global error handler, which runs on the
  still untouched response object.
\<close>

datatype gw_result = Respond response | Forward proxied | NoReply

definition reply :: "res_state \<Rightarrow> gw_result" where
  "reply res = (case sent res of [] \<Rightarrow> NoReply | r # rs \<Rightarrow> Respond r)"

definition gateway :: "env \<Rightarrow> request \<Rightarrow> gw_result" where
  "gateway e req =
     (if get_match ''/gateway/health'' req
      then (case healthHandler e of
              Inr resp \<Rightarrow> Respond resp
            | Inl err \<Rightarrow> reply (globalErrorHandler e err fresh_res))
      else (case use_match ''/api/authz'' req of
              Some r \<Rightarrow> Forward (proxy e Auth r)
            | None \<Rightarrow>
           (case use_match ''/api/iam'' req of
              Some r \<Rightarrow> Forward (proxy e IAM r)
            | None \<Rightarrow>
           (case use_match ''/api/inv'' req of
              Some r \<Rightarrow> Forward (proxy e Inventory r)
            | None \<Rightarrow>
                if get_match ''/api'' req then Respond (apiDocumentation e)
                else Respond (notFound e req)))))"

subsection \<open>Failures after the request was handed to a proxy\<close>

text \<open>
  The caller's connection while a proxied request is in flight: the response object,
  whether the request has been received completely, whether the socket has been
  destroyed, and the responses that the caller has received. What a handler writes
  reaches the caller only while the socket is alive.
\<close>

record connection =
  res :: res_state
  complete :: bool
  destroyed :: bool
  received :: "response list"







section \<open>Example inputs\<close>

text \<open>
  A configuration and requests on which the theorems below are instantiated. The
  stand-in for \<open>jwt.verify\<close> accepts three tokens, reports one token as expired and
  rejects every other token. The example requests carry no body, so their \<open>req.body\<close>
  is the empty object that the body parsers leave.
\<close>

definition example_user :: jsval where
  "example_user = Obj [(''id'', Str ''u1''), (''email'', Str ''a@b.com''), (''userType'', Str ''buyer'')]"

definition empty_id_user :: jsval where
  "empty_id_user = Obj [(''id'', Str ''''), (''email'', Str ''a@b.com''), (''userType'', Str ''buyer'')]"

definition mongo_user :: jsval where
  "mongo_user =
     Obj [(''id'', Str ''''), (''_id'', Str ''m1''), (''email'', Str ''a@b.com''), (''userType'', Str ''buyer'')]"

definition example_payload :: "string \<rightharpoonup> jsval" where
  "example_payload =
     map_of [(''good.token'', Obj [(''user'', example_user)]),
             (''emptyid.token'', Obj [(''user'', empty_id_user)]),
             (''mongo.token'', Obj [(''user'', mongo_user)])]"

definition example_verify :: "string \<Rightarrow> string \<Rightarrow> js_error + jsval" where
  "example_verify token secret =
     (if token = ''expired.token''
      then Inl \<lparr>ename = ''TokenExpiredError'', emessage = ''jwt expired'', estatus = None\<rparr>
      else if secret = ''s3cret''
      then (case example_payload token of
              Some payload \<Rightarrow> Inr payload
            | None \<Rightarrow> Inl \<lparr>ename = ''JsonWebTokenError'', emessage = ''jwt malformed'', estatus = None\<rparr>)
      else Inl \<lparr>ename = ''JsonWebTokenError'', emessage = ''invalid signature'', estatus = None\<rparr>)"

definition example_env :: env where
  "example_env =
     \<lparr>processEnv = map_of [(''JWT_SECRET'', ''s3cret''), (''AUTH_SERVICE_URL'', ''http://auth:3001'')],
      jwt_verify = example_verify,
      JSON_stringify = (\<lambda>v. Inr (Str ''{}'')),
      now = ''2024-01-01T00:00:00.000Z''\<rparr>"

definition example_request :: "string \<Rightarrow> string \<Rightarrow> jsval option \<Rightarrow> request" where
  "example_request m u auth =
     \<lparr>req_method = m, originalUrl = u, url = u,
      headers = (case auth of None \<Rightarrow> Map.empty | Some v \<Rightarrow> [''authorization'' \<mapsto> v]),
      body = Obj []\<rparr>"


text \<open>The value of a header on the request that the middleware passes on, if it does.\<close>

definition propagated :: "mw_result \<Rightarrow> string \<Rightarrow> jsval option" where
  "propagated r name = (case r of Next req \<Rightarrow> headers req name | Done resp \<Rightarrow> None)"

section \<open>Properties of the route classifier\<close>

lemma replace_first_trailing:
  "CHR ''*'' \<notin> set b \<Longrightarrow> replace_first ''/*'' '''' (b @ ''/*'') = b"
proof (induction b)
  case Nil
  show ?case by simp
next
  case (Cons c cs)
  have np: "\<not> prefix ''/*'' (c # cs @ ''/*'')"
  proof (cases cs)
    case Nil
    then show ?thesis by simp
  next
    case (Cons d ds)
    with Cons.prems show ?thesis by auto
  qed
  have "replace_first ''/*'' '''' ((c # cs) @ ''/*'') = c # replace_first ''/*'' '''' (cs @ ''/*'')"
    unfolding append_Cons replace_first.simps(2) using np by (simp only: if_False)
  moreover have "replace_first ''/*'' '''' (cs @ ''/*'') = cs"
    using Cons by simp
  ultimately show ?case by (simp only:)
qed

lemma route_matches_refines:
  assumes "well_formed r"
  shows "route_matches p r = spec_matches (pattern_of r) p"
proof (cases "suffix ''/*'' r")
  case True
  then obtain b where r: "r = b @ ''/*''"
    by (auto simp: suffix_def)
  with assms True have nb: "CHR ''*'' \<notin> set b"
    by (simp add: well_formed_def)
  have "replace_first ''/*'' '''' r = b"
    using nb r by (simp add: replace_first_trailing)
  with True r show ?thesis
    by (simp add: route_matches_def pattern_of_def str_includes_def startsWith_def)
next
  case False
  with assms have "CHR ''*'' \<notin> set r"
    by (simp add: well_formed_def)
  with False show ?thesis
    by (simp add: route_matches_def pattern_of_def str_includes_def startsWith_def)
qed

lemma isPublicRouteIn_refines:
  "list_all well_formed routes \<Longrightarrow> isPublicRouteIn routes p = spec_isPublic routes p"
  by (induction routes)
     (simp_all add: isPublicRouteIn_def spec_isPublic_def route_matches_refines)

lemma PUBLIC_ROUTES_well_formed: "list_all well_formed PUBLIC_ROUTES"
  by (simp add: PUBLIC_ROUTES_def well_formed_def suffix_to_prefix)

text \<open>
  Claim C2. The entry \<open>/api\<close> is in the public-route list and matching is by string
  prefix, so \<open>isPublicRoute\<close> returns true for every path that starts with \<open>/api\<close>
  (for \<open>/api\<close> itself and for every path below it): no path under \<open>/api\<close> is ever
  classified as protected.
\<close>

theorem api_subtree_public: "prefix ''/api'' p \<Longrightarrow> isPublicRoute p"
  by (simp add: isPublicRoute_def isPublicRouteIn_def PUBLIC_ROUTES_def route_matches_def
      str_includes_def startsWith_def)

theorem api_subtree_public_witness:
  "prefix ''/api'' ''/api/iam/users'' \<and> isPublicRoute ''/api/iam/users'' \<and> isPublicRoute ''/api''"
  using api_subtree_public [of "''/api/iam/users''"] api_subtree_public [of "''/api''"]
  by simp

text \<open>
  Claim C3. For every path \<open>p\<close>, \<open>isPublicRoute p\<close> is true exactly when some entry of
  the configured public set matches \<open>p\<close>, where a wildcard entry matches by string-prefix
  comparison on its base and an exact entry matches by equality or by \<open>p\<close> having the
  entry as a prefix; a path matching no entry is classified as protected. The function
  is total: it returns a truth value for every path. The same holds of the classifier
  over any list of well-formed entries, wildcard entries included.
\<close>

theorem isPublicRoute_iff_some_entry_matches:
  "(isPublicRoute p \<longleftrightarrow> (\<exists>r \<in> set PUBLIC_ROUTES. spec_matches (pattern_of r) p)) \<and>
   ((\<forall>r \<in> set PUBLIC_ROUTES. \<not> spec_matches (pattern_of r) p) \<longrightarrow> \<not> isPublicRoute p) \<and>
   (list_all well_formed routes \<longrightarrow>
      (isPublicRouteIn routes p \<longleftrightarrow> (\<exists>r \<in> set routes. spec_matches (pattern_of r) p)))"
  using isPublicRouteIn_refines [OF PUBLIC_ROUTES_well_formed, of p]
    isPublicRouteIn_refines [of routes p]
  by (simp add: isPublicRoute_def spec_isPublic_def list_ex_iff)

theorem isPublicRoute_iff_some_entry_matches_witness:
  "isPublicRoute ''/health/live'' \<and>
   \<not> spec_isPublic PUBLIC_ROUTES ''/gateway/health'' \<and>
   \<not> isPublicRoute ''/gateway/health'' \<and>
   list_all well_formed [''/public/*'', ''/health''] \<and>
   isPublicRouteIn [''/public/*'', ''/health''] ''/public/logo.png'' \<and>
   \<not> isPublicRouteIn [''/public/*'', ''/health''] ''/private''"
  using isPublicRoute_iff_some_entry_matches [of "''/health/live''" "[''/public/*'', ''/health'']"]
    isPublicRoute_iff_some_entry_matches [of "''/gateway/health''" "[''/public/*'', ''/health'']"]
    isPublicRoute_iff_some_entry_matches [of "''/public/logo.png''" "[''/public/*'', ''/health'']"]
    isPublicRoute_iff_some_entry_matches [of "''/private''" "[''/public/*'', ''/health'']"]
  by (simp add: PUBLIC_ROUTES_def pattern_of_def well_formed_def suffix_to_prefix spec_isPublic_def)

section \<open>Properties of the authentication middleware\<close>

lemma bearer_parts:
  "(length parts \<noteq> 2 \<or> parts ! 0 \<noteq> ''Bearer'') = (\<nexists>tok. parts = [''Bearer'', tok])"
proof (cases parts)
  case Nil
  then show ?thesis by simp
next
  case (Cons a as)
  then show ?thesis by (cases as) auto
qed

lemma auth_try_verified:
  assumes "authorization req = Str s"
    and "split_on (CHR '' '') s = [''Bearer'', tok]"
    and "processEnv e ''JWT_SECRET'' = Some secret" and "secret \<noteq> []"
  shows "auth_try e req =
     (case jwt_verify e tok secret of Inl err \<Rightarrow> Inl err | Inr decoded \<Rightarrow> propagate e req decoded)"
proof -
  from assms(2) have "s \<noteq> []" by auto
  with assms show ?thesis
    by (simp add: auth_try_def Let_def)
qed

lemma not_public_orders: "\<not> isPublicRoute (path (example_request m ''/orders'' a))"
  by (simp add: isPublicRoute_def isPublicRouteIn_def PUBLIC_ROUTES_def route_matches_def
      str_includes_def startsWith_def path_def pathname_def example_request_def)

lemma example_authorization:
  "authorization (example_request m u None) = Undefined"
  "authorization (example_request m u (Some v)) = v"
  by (simp_all add: authorization_def example_request_def)

lemma example_headers:
  "headers (example_request m u (Some v)) = [''authorization'' \<mapsto> v]"
  by (simp add: example_request_def)

lemma example_headers_none: "headers (example_request m u None) = Map.empty"
  by (simp add: example_request_def)

text \<open>
  Claim C4. For a request to a protected path, the authentication step maps each failure
  to its response: no Authorization header (the test \<open>!authHeader\<close>, which also takes
  an empty value for no header) yields 401 "Authentication required"; a header that is
  not exactly two space-separated parts with first part \<open>Bearer\<close> yields 401 "Invalid
  authorization header format"; an expired token (\<open>jwt.verify\<close> throws an error named
  \<open>TokenExpiredError\<close>) yields 401 "Token has expired"; any other verification failure
  yields 401 "Invalid or expired token". The four responses are distinct.
\<close>

theorem auth_failure_mapping:
  assumes "\<not> isPublicRoute (path req)"
  shows
    "(headers req ''authorization'' = None \<or> headers req ''authorization'' = Some (Str '''') \<longrightarrow>
        gatewayAuthMiddleware e req =
          Done \<lparr>status = 401,
                json = Obj [(''success'', Bool False),
                            (''message'', Str ''Authentication required''),
                            (''timestamp'', Str (now e))]\<rparr>) \<and>
     (\<forall>s. headers req ''authorization'' = Some (Str s) \<and> s \<noteq> [] \<and>
          (\<nexists>tok. split_on (CHR '' '') s = [''Bearer'', tok]) \<longrightarrow>
        gatewayAuthMiddleware e req =
          Done \<lparr>status = 401,
                json = Obj [(''success'', Bool False),
                            (''message'', Str ''Invalid authorization header format''),
                            (''timestamp'', Str (now e))]\<rparr>) \<and>
     (\<forall>s tok secret err.
        headers req ''authorization'' = Some (Str s) \<and>
        split_on (CHR '' '') s = [''Bearer'', tok] \<and>
        processEnv e ''JWT_SECRET'' = Some secret \<and> secret \<noteq> [] \<and>
        jwt_verify e tok secret = Inl err \<and> ename err = ''TokenExpiredError'' \<longrightarrow>
        gatewayAuthMiddleware e req =
          Done \<lparr>status = 401,
                json = Obj [(''success'', Bool False),
                            (''message'', Str ''Token has expired''),
                            (''timestamp'', Str (now e))]\<rparr>) \<and>
     (\<forall>s tok secret err.
        headers req ''authorization'' = Some (Str s) \<and>
        split_on (CHR '' '') s = [''Bearer'', tok] \<and>
        processEnv e ''JWT_SECRET'' = Some secret \<and> secret \<noteq> [] \<and>
        jwt_verify e tok secret = Inl err \<and> ename err \<noteq> ''TokenExpiredError'' \<longrightarrow>
        gatewayAuthMiddleware e req =
          Done \<lparr>status = 401,
                json = Obj [(''success'', Bool False),
                            (''message'', Str ''Invalid or expired token''),
                            (''timestamp'', Str (now e))]\<rparr>) \<and>
     distinct
       [\<lparr>status = 401,
         json = Obj [(''success'', Bool False),
                     (''message'', Str ''Authentication required''),
                     (''timestamp'', Str (now e))]\<rparr>,
        \<lparr>status = 401,
         json = Obj [(''success'', Bool False),
                     (''message'', Str ''Invalid authorization header format''),
                     (''timestamp'', Str (now e))]\<rparr>,
        \<lparr>status = 401,
         json = Obj [(''success'', Bool False),
                     (''message'', Str ''Token has expired''),
                     (''timestamp'', Str (now e))]\<rparr>,
        \<lparr>status = 401,
         json = Obj [(''success'', Bool False),
                     (''message'', Str ''Invalid or expired token''),
                     (''timestamp'', Str (now e))]\<rparr>]"
proof (intro conjI allI impI)
  assume "headers req ''authorization'' = None \<or> headers req ''authorization'' = Some (Str '''')"
  then have "\<not> truthy (authorization req)"
    by (auto simp: authorization_def)
  with assms show "gatewayAuthMiddleware e req =
          Done \<lparr>status = 401,
                json = Obj [(''success'', Bool False),
                            (''message'', Str ''Authentication required''),
                            (''timestamp'', Str (now e))]\<rparr>"
    by (simp add: gatewayAuthMiddleware_def auth_try_def failure_def)
next
  fix s
  assume h: "headers req ''authorization'' = Some (Str s) \<and> s \<noteq> [] \<and>
          (\<nexists>tok. split_on (CHR '' '') s = [''Bearer'', tok])"
  then have a: "authorization req = Str s"
    by (simp add: authorization_def)
  from h have "length (split_on (CHR '' '') s) \<noteq> 2 \<or> split_on (CHR '' '') s ! 0 \<noteq> ''Bearer''"
    by (simp only: bearer_parts) simp
  with assms h a show "gatewayAuthMiddleware e req =
          Done \<lparr>status = 401,
                json = Obj [(''success'', Bool False),
                            (''message'', Str ''Invalid authorization header format''),
                            (''timestamp'', Str (now e))]\<rparr>"
    by (simp add: gatewayAuthMiddleware_def auth_try_def failure_def Let_def)
next
  fix s tok secret err
  assume h: "headers req ''authorization'' = Some (Str s) \<and>
        split_on (CHR '' '') s = [''Bearer'', tok] \<and>
        processEnv e ''JWT_SECRET'' = Some secret \<and> secret \<noteq> [] \<and>
        jwt_verify e tok secret = Inl err \<and> ename err = ''TokenExpiredError''"
  then have "authorization req = Str s"
    by (simp add: authorization_def)
  with h have "auth_try e req = Inl err"
    using auth_try_verified [of req s tok e secret] by simp
  with assms h show "gatewayAuthMiddleware e req =
          Done \<lparr>status = 401,
                json = Obj [(''success'', Bool False),
                            (''message'', Str ''Token has expired''),
                            (''timestamp'', Str (now e))]\<rparr>"
    by (simp add: gatewayAuthMiddleware_def auth_catch_def failure_def)
next
  fix s tok secret err
  assume h: "headers req ''authorization'' = Some (Str s) \<and>
        split_on (CHR '' '') s = [''Bearer'', tok] \<and>
        processEnv e ''JWT_SECRET'' = Some secret \<and> secret \<noteq> [] \<and>
        jwt_verify e tok secret = Inl err \<and> ename err \<noteq> ''TokenExpiredError''"
  then have "authorization req = Str s"
    by (simp add: authorization_def)
  with h have "auth_try e req = Inl err"
    using auth_try_verified [of req s tok e secret] by simp
  with assms h show "gatewayAuthMiddleware e req =
          Done \<lparr>status = 401,
                json = Obj [(''success'', Bool False),
                            (''message'', Str ''Invalid or expired token''),
                            (''timestamp'', Str (now e))]\<rparr>"
    by (simp add: gatewayAuthMiddleware_def auth_catch_def failure_def)
next
  show "distinct
       [\<lparr>status = 401,
         json = Obj [(''success'', Bool False),
                     (''message'', Str ''Authentication required''),
                     (''timestamp'', Str (now e))]\<rparr>,
        \<lparr>status = 401,
         json = Obj [(''success'', Bool False),
                     (''message'', Str ''Invalid authorization header format''),
                     (''timestamp'', Str (now e))]\<rparr>,
        \<lparr>status = 401,
         json = Obj [(''success'', Bool False),
                     (''message'', Str ''Token has expired''),
                     (''timestamp'', Str (now e))]\<rparr>,
        \<lparr>status = 401,
         json = Obj [(''success'', Bool False),
                     (''message'', Str ''Invalid or expired token''),
                     (''timestamp'', Str (now e))]\<rparr>]"
    by simp
qed

theorem auth_failure_mapping_witness:
  "gatewayAuthMiddleware example_env (example_request ''GET'' ''/orders'' None) =
     Done \<lparr>status = 401,
           json = Obj [(''success'', Bool False),
                       (''message'', Str ''Authentication required''),
                       (''timestamp'', Str ''2024-01-01T00:00:00.000Z'')]\<rparr> \<and>
   gatewayAuthMiddleware example_env (example_request ''GET'' ''/orders'' (Some (Str ''''))) =
     Done \<lparr>status = 401,
           json = Obj [(''success'', Bool False),
                       (''message'', Str ''Authentication required''),
                       (''timestamp'', Str ''2024-01-01T00:00:00.000Z'')]\<rparr> \<and>
   gatewayAuthMiddleware example_env (example_request ''GET'' ''/orders'' (Some (Str ''Basic xyz''))) =
     Done \<lparr>status = 401,
           json = Obj [(''success'', Bool False),
                       (''message'', Str ''Invalid authorization header format''),
                       (''timestamp'', Str ''2024-01-01T00:00:00.000Z'')]\<rparr> \<and>
   gatewayAuthMiddleware example_env (example_request ''GET'' ''/orders'' (Some (Str ''Bearer''))) =
     Done \<lparr>status = 401,
           json = Obj [(''success'', Bool False),
                       (''message'', Str ''Invalid authorization header format''),
                       (''timestamp'', Str ''2024-01-01T00:00:00.000Z'')]\<rparr> \<and>
   gatewayAuthMiddleware example_env
       (example_request ''GET'' ''/orders'' (Some (Str ''Bearer good.token extra''))) =
     Done \<lparr>status = 401,
           json = Obj [(''success'', Bool False),
                       (''message'', Str ''Invalid authorization header format''),
                       (''timestamp'', Str ''2024-01-01T00:00:00.000Z'')]\<rparr> \<and>
   gatewayAuthMiddleware example_env
       (example_request ''GET'' ''/orders'' (Some (Str ''Bearer expired.token''))) =
     Done \<lparr>status = 401,
           json = Obj [(''success'', Bool False),
                       (''message'', Str ''Token has expired''),
                       (''timestamp'', Str ''2024-01-01T00:00:00.000Z'')]\<rparr> \<and>
   gatewayAuthMiddleware example_env
       (example_request ''GET'' ''/orders'' (Some (Str ''Bearer forged.token''))) =
     Done \<lparr>status = 401,
           json = Obj [(''success'', Bool False),
                       (''message'', Str ''Invalid or expired token''),
                       (''timestamp'', Str ''2024-01-01T00:00:00.000Z'')]\<rparr>"
  using auth_failure_mapping [OF not_public_orders, of "''GET''" None example_env]
    auth_failure_mapping [OF not_public_orders, of "''GET''" "Some (Str '''')" example_env]
    auth_failure_mapping [OF not_public_orders, of "''GET''" "Some (Str ''Basic xyz'')" example_env]
    auth_failure_mapping [OF not_public_orders, of "''GET''" "Some (Str ''Bearer'')" example_env]
    auth_failure_mapping [OF not_public_orders, of "''GET''" "Some (Str ''Bearer good.token extra'')" example_env]
    auth_failure_mapping [OF not_public_orders, of "''GET''" "Some (Str ''Bearer expired.token'')" example_env]
    auth_failure_mapping [OF not_public_orders, of "''GET''" "Some (Str ''Bearer forged.token'')" example_env]
  by (simp add: example_headers example_headers_none example_env_def example_verify_def
      example_payload_def)

text \<open>
  Claim C5. When the signing secret is not configured (unset or empty) and the request
  reaches the secret check (protected path, header present and well formed), the
  middleware answers with status 500 and the message "Server configuration error",
  not with one of the 401 authentication failures.
\<close>

theorem missing_secret_is_server_error:
  assumes "\<not> isPublicRoute (path req)"
    and "authorization req = Str s"
    and "split_on (CHR '' '') s = [''Bearer'', tok]"
    and "processEnv e ''JWT_SECRET'' = None \<or> processEnv e ''JWT_SECRET'' = Some ''''"
  shows "gatewayAuthMiddleware e req =
           Done \<lparr>status = 500,
                 json = Obj [(''success'', Bool False),
                             (''message'', Str ''Server configuration error''),
                             (''timestamp'', Str (now e))]\<rparr>"
proof -
  from assms(3) have "s \<noteq> []" by auto
  with assms show ?thesis
    by (auto simp: gatewayAuthMiddleware_def auth_try_def failure_def Let_def)
qed

theorem missing_secret_is_server_error_witness:
  "gatewayAuthMiddleware (example_env\<lparr>processEnv := Map.empty\<rparr>)
     (example_request ''GET'' ''/orders'' (Some (Str ''Bearer good.token''))) =
   Done \<lparr>status = 500,
         json = Obj [(''success'', Bool False),
                     (''message'', Str ''Server configuration error''),
                     (''timestamp'', Str ''2024-01-01T00:00:00.000Z'')]\<rparr>"
  using missing_secret_is_server_error [OF not_public_orders, of "''GET''" "Some (Str ''Bearer good.token'')"
      "''Bearer good.token''" "''good.token''" "example_env\<lparr>processEnv := Map.empty\<rparr>"]
  by (simp add: example_authorization example_env_def)

section \<open>Properties of the proxy routes\<close>











section \<open>Properties of identity propagation\<close>

lemma member_user:
  "get_prop decoded ''user'' = Obj u \<Longrightarrow> js_member decoded ''user'' = Inr (Obj u)"
  by (cases decoded) (simp_all add: js_member_def)

lemma gatewayAuthMiddleware_verified:
  assumes "\<not> isPublicRoute (path req)"
    and "authorization req = Str s"
    and "split_on (CHR '' '') s = [''Bearer'', tok]"
    and "processEnv e ''JWT_SECRET'' = Some secret" and "secret \<noteq> []"
    and "jwt_verify e tok secret = Inr decoded"
  shows "gatewayAuthMiddleware e req =
           (case propagate e req decoded of Inr r \<Rightarrow> r | Inl err \<Rightarrow> auth_catch e err)"
  using assms auth_try_verified [of req s tok e secret]
  by (simp add: gatewayAuthMiddleware_def)

text \<open>
  Claim C6, as amended. For a protected request whose token verifies against the
  configured secret and decodes to a payload with a \<open>user\<close> object, when serialising
  that object succeeds and the log line can print \<open>user.email\<close> (every string can),
  the middleware calls \<open>next()\<close> with \<open>x-user-email\<close> and \<open>x-user-type\<close> equal to
  \<open>user.email\<close> and \<open>user.userType\<close>, and with \<open>x-user-id\<close> equal to \<open>user.id\<close> when
  that value is truthy and to \<open>user._id\<close> otherwise.
\<close>

theorem identity_headers_propagated:
  assumes "\<not> isPublicRoute (path req)"
    and "authorization req = Str s"
    and "split_on (CHR '' '') s = [''Bearer'', tok]"
    and "processEnv e ''JWT_SECRET'' = Some secret" and "secret \<noteq> []"
    and "jwt_verify e tok secret = Inr decoded"
    and "get_prop decoded ''user'' = Obj u"
    and "JSON_stringify e (Obj u) = Inr data"
    and "\<not> tpl_throws (get_prop (Obj u) ''email'')"
  shows "gatewayAuthMiddleware e req =
           Next (req\<lparr>headers := (headers req)
             (''x-user-id'' \<mapsto> (if truthy (get_prop (Obj u) ''id'') then get_prop (Obj u) ''id''
                                  else get_prop (Obj u) ''_id''),
              ''x-user-email'' \<mapsto> get_prop (Obj u) ''email'',
              ''x-user-type'' \<mapsto> get_prop (Obj u) ''userType'',
              ''x-user-data'' \<mapsto> data)\<rparr>)"
proof -
  have "propagate e req decoded =
          Inr (Next (req\<lparr>headers := (headers req)
             (''x-user-id'' \<mapsto> (if truthy (get_prop (Obj u) ''id'') then get_prop (Obj u) ''id''
                                  else get_prop (Obj u) ''_id''),
              ''x-user-email'' \<mapsto> get_prop (Obj u) ''email'',
              ''x-user-type'' \<mapsto> get_prop (Obj u) ''userType'',
              ''x-user-data'' \<mapsto> data)\<rparr>))"
    using assms(8,9) member_user [OF assms(7)]
    by (simp add: propagate_def opt_member_def js_or_def Let_def)
  with gatewayAuthMiddleware_verified [OF assms(1-6)] show ?thesis
    by simp
qed

theorem identity_headers_propagated_witness:
  "gatewayAuthMiddleware example_env
     (example_request ''GET'' ''/orders'' (Some (Str ''Bearer good.token''))) =
   Next ((example_request ''GET'' ''/orders'' (Some (Str ''Bearer good.token'')))
     \<lparr>headers := [''authorization'' \<mapsto> Str ''Bearer good.token'',
                  ''x-user-id'' \<mapsto> Str ''u1'',
                  ''x-user-email'' \<mapsto> Str ''a@b.com'',
                  ''x-user-type'' \<mapsto> Str ''buyer'',
                  ''x-user-data'' \<mapsto> Str ''{}'']\<rparr>)"
  using identity_headers_propagated [OF not_public_orders, of "''GET''" "Some (Str ''Bearer good.token'')"
      "''Bearer good.token''" "''good.token''" example_env "''s3cret''" "Obj [(''user'', example_user)]"
      "[(''id'', Str ''u1''), (''email'', Str ''a@b.com''), (''userType'', Str ''buyer'')]" "Str ''{}''"]
  by (simp add: example_authorization example_headers example_env_def example_verify_def
      example_payload_def example_user_def)

text \<open>
  The claim as stated (\<open>x-user-id\<close> always equals \<open>user.id\<close>) fails for a token whose
  \<open>user.id\<close> is the empty string: the header is \<open>undefined\<close>, or the value of
  \<open>user._id\<close> when the token carries one.
\<close>

theorem falsy_id_counterexample:
  "propagated (gatewayAuthMiddleware example_env
       (example_request ''GET'' ''/orders'' (Some (Str ''Bearer emptyid.token'')))) ''x-user-id'' =
     Some Undefined \<and>
   get_prop empty_id_user ''id'' = Str '''' \<and>
   propagated (gatewayAuthMiddleware example_env
       (example_request ''GET'' ''/orders'' (Some (Str ''Bearer mongo.token'')))) ''x-user-id'' =
     Some (Str ''m1'') \<and>
   get_prop mongo_user ''id'' = Str ''''"
  by (simp add: propagated_def gatewayAuthMiddleware_def not_public_orders auth_try_def
      example_authorization example_env_def example_verify_def example_payload_def
      empty_id_user_def mongo_user_def propagate_def js_member_def opt_member_def js_or_def Let_def)

section \<open>Properties of the failure handlers\<close>



















section \<open>Properties of the gateway\<close>

text \<open>
  Claim C10 says that every request to the health endpoint is answered with status 200
  and a JSON body listing the configured backend origins. The handler does not get
  that far: its object literal reads \<open>KYC_SERVICE_URL\<close>, which the module never
  declares, so evaluating it throws a ReferenceError, and the global error handler
  answers every \<open>GET /gateway/health\<close> with status 500.
\<close>

theorem health_endpoint_reference_error:
  "healthHandler e = Inl (ReferenceError ''KYC_SERVICE_URL is not defined'') \<and>
   gateway e (example_request ''GET'' ''/gateway/health'' auth) =
     Respond \<lparr>status = 500,
              json = Obj [(''status'', Str ''error''),
                          (''message'', Str ''KYC_SERVICE_URL is not defined''),
                          (''timestamp'', Str (now e))]\<rparr>"
proof
  show h: "healthHandler e = Inl (ReferenceError ''KYC_SERVICE_URL is not defined'')"
    by (simp add: healthHandler_def js_identifier_def module_scope_def)
  have "get_match ''/gateway/health'' (example_request ''GET'' ''/gateway/health'' auth)"
    by (simp add: example_request_def get_match_def path_def pathname_def)
  with h show "gateway e (example_request ''GET'' ''/gateway/health'' auth) =
     Respond \<lparr>status = 500,
              json = Obj [(''status'', Str ''error''),
                          (''message'', Str ''KYC_SERVICE_URL is not defined''),
                          (''timestamp'', Str (now e))]\<rparr>"
    by (simp add: gateway_def ReferenceError_def globalErrorHandler_def fresh_res_def res_json_def
        reply_def)
qed

text \<open>
  Claim C1 says that a request whose path is not public is forwarded only after the
  token was verified, and is otherwise answered with an authentication error. The
  gateway imports \<open>gatewayAuthMiddleware\<close> but never registers it, so no request is
  authenticated: \<open>GET /orders\<close> without credentials, which the middleware would
  answer with 401, gets the 404 of the route table, and \<open>POST /API/authz/login\<close>
  without credentials, a path that is not public, is forwarded to the auth service.
\<close>

theorem gateway_skips_authentication:
  "\<not> isPublicRoute (path (example_request ''GET'' ''/orders'' None)) \<and>
   gatewayAuthMiddleware e (example_request ''GET'' ''/orders'' None) =
     Done \<lparr>status = 401,
           json = Obj [(''success'', Bool False),
                       (''message'', Str ''Authentication required''),
                       (''timestamp'', Str (now e))]\<rparr> \<and>
   gateway e (example_request ''GET'' ''/orders'' None) =
     Respond \<lparr>status = 404,
              json = Obj [(''success'', Bool False),
                          (''message'', Str ''Route /orders not found''),
                          (''timestamp'', Str (now e))]\<rparr> \<and>
   \<not> isPublicRoute (path (example_request ''POST'' ''/API/authz/login'' None)) \<and>
   gatewayAuthMiddleware e (example_request ''POST'' ''/API/authz/login'' None) =
     Done \<lparr>status = 401,
           json = Obj [(''success'', Bool False),
                       (''message'', Str ''Authentication required''),
                       (''timestamp'', Str (now e))]\<rparr> \<and>
   gateway e (example_request ''POST'' ''/API/authz/login'' None) =
     Forward \<lparr>porigin = AUTH_SERVICE_URL e, ppath = ''/api/authz/login'', pmethod = ''POST''\<rparr>"
proof (intro conjI)
  show np1: "\<not> isPublicRoute (path (example_request ''GET'' ''/orders'' None))"
    by (rule not_public_orders)
  show np2: "\<not> isPublicRoute (path (example_request ''POST'' ''/API/authz/login'' None))"
    by (simp add: isPublicRoute_def isPublicRouteIn_def PUBLIC_ROUTES_def route_matches_def
        str_includes_def startsWith_def path_def pathname_def example_request_def)
  show "gatewayAuthMiddleware e (example_request ''GET'' ''/orders'' None) =
     Done \<lparr>status = 401,
           json = Obj [(''success'', Bool False),
                       (''message'', Str ''Authentication required''),
                       (''timestamp'', Str (now e))]\<rparr>"
    using np1 by (simp add: gatewayAuthMiddleware_def auth_try_def example_authorization failure_def)
  show "gatewayAuthMiddleware e (example_request ''POST'' ''/API/authz/login'' None) =
     Done \<lparr>status = 401,
           json = Obj [(''success'', Bool False),
                       (''message'', Str ''Authentication required''),
                       (''timestamp'', Str (now e))]\<rparr>"
    using np2 by (simp add: gatewayAuthMiddleware_def auth_try_def example_authorization failure_def)
  show "gateway e (example_request ''GET'' ''/orders'' None) =
     Respond \<lparr>status = 404,
              json = Obj [(''success'', Bool False),
                          (''message'', Str ''Route /orders not found''),
                          (''timestamp'', Str (now e))]\<rparr>"
    by (simp add: gateway_def example_request_def get_match_def use_match_def path_def pathname_def
        toLower_def notFound_def failure_def Let_def)
  show "gateway e (example_request ''POST'' ''/API/authz/login'' None) =
     Forward \<lparr>porigin = AUTH_SERVICE_URL e, ppath = ''/api/authz/login'', pmethod = ''POST''\<rparr>"
    by (simp add: gateway_def example_request_def get_match_def use_match_def path_def pathname_def
        toLower_def proxy_def proxyReqPathResolver_def Let_def)
qed

text \<open>
  The middleware on its own does what the claim asks: on a protected path it calls
  \<open>next()\<close> only after a well-formed header, a configured secret and a successful
  verification.
\<close>

lemma two_parts: "length xs = 2 \<Longrightarrow> xs = [xs ! 0, xs ! 1]"
proof (cases xs)
  case Nil
  then show "length xs = 2 \<Longrightarrow> xs = [xs ! 0, xs ! 1]" by simp
next
  case (Cons a as)
  then show "length xs = 2 \<Longrightarrow> xs = [xs ! 0, xs ! 1]" by (cases as) auto
qed

lemma auth_try_Next:
  assumes "auth_try e req = Inr (Next req')"
  shows "\<exists>s secret decoded.
           authorization req = Str s \<and> length (split_on (CHR '' '') s) = 2 \<and>
           split_on (CHR '' '') s ! 0 = ''Bearer'' \<and>
           processEnv e ''JWT_SECRET'' = Some secret \<and> secret \<noteq> [] \<and>
           jwt_verify e (split_on (CHR '' '') s ! 1) secret = Inr decoded \<and>
           propagate e req decoded = Inr (Next req')"
  using assms
  by (auto simp: auth_try_def Let_def split: if_splits sum.splits jsval.splits option.splits)

lemma middleware_next_only_if_verified:
  assumes "\<not> isPublicRoute (path req)" and "gatewayAuthMiddleware e req = Next req'"
  shows "\<exists>s tok secret decoded.
           authorization req = Str s \<and> split_on (CHR '' '') s = [''Bearer'', tok] \<and>
           processEnv e ''JWT_SECRET'' = Some secret \<and> secret \<noteq> [] \<and>
           jwt_verify e tok secret = Inr decoded \<and> propagate e req decoded = Inr (Next req')"
proof -
  from assms have "auth_try e req = Inr (Next req')"
    by (auto simp: gatewayAuthMiddleware_def auth_catch_def split: sum.splits if_splits)
  from auth_try_Next [OF this] obtain s secret decoded where
    h: "authorization req = Str s" "length (split_on (CHR '' '') s) = 2"
      "split_on (CHR '' '') s ! 0 = ''Bearer''"
      "processEnv e ''JWT_SECRET'' = Some secret" "secret \<noteq> []"
      "jwt_verify e (split_on (CHR '' '') s ! 1) secret = Inr decoded"
      "propagate e req decoded = Inr (Next req')"
    by blast
  from two_parts [OF h(2)] h(3)
  have "split_on (CHR '' '') s = [''Bearer'', split_on (CHR '' '') s ! 1]" by simp
  with h show ?thesis by blast
qed

end
